theory Spec2Isabelle
  imports Main "HOL-Library.Sublist"
begin

section \<open>Data model (types.ts)\<close>

text \<open>
  The \<open>Artwork\<close> interface. The identifier is the catalogue's integer \<open>id\<close>
  (named \<open>artwork_id\<close> here, \<open>id\<close> being the identity function of HOL). A field the
  interface marks optional, or that the API may deliver as \<open>null\<close>, is an option;
  \<open>None\<close> stands for both \<open>undefined\<close> and \<open>null\<close>.
\<close>

record artwork =
  artwork_id :: int
  title :: string
  image_id :: "string option"
  artist_title :: "string option"
  date_display :: "string option"
  medium_display :: "string option"
  dimensions :: "string option"
  artist_display :: "string option"
  place_of_origin :: "string option"
  description :: "string option"
  short_description :: "string option"

section \<open>Favorites store (context/FavoritesContext.tsx)\<close>

text \<open>
  The provider's state is the array \<open>favorites\<close>; each operation is the updater function
  that the source hands to \<open>setFavorites\<close>.
  \<^item> \<open>addToFavorites\<close>: \<^verbatim>\<open>setFavorites(prev => [...prev, artwork])\<close>
  \<^item> \<open>removeFromFavorites\<close>: \<^verbatim>\<open>setFavorites(prev => prev.filter(artwork => artwork.id !== artworkId))\<close>
  \<^item> \<open>isFavorite\<close>: \<^verbatim>\<open>favorites.some(artwork => artwork.id === artworkId)\<close>
\<close>

definition addToFavorites :: "artwork \<Rightarrow> artwork list \<Rightarrow> artwork list" where
  "addToFavorites a prev = prev @ [a]"

definition removeFromFavorites :: "int \<Rightarrow> artwork list \<Rightarrow> artwork list" where
  "removeFromFavorites artworkId prev = filter (\<lambda>a. artwork_id a \<noteq> artworkId) prev"

definition isFavorite :: "artwork list \<Rightarrow> int \<Rightarrow> bool" where
  "isFavorite favorites artworkId = list_ex (\<lambda>a. artwork_id a = artworkId) favorites"

text \<open>
  What a component sees is the context value of a render. Its \<open>isFavorite\<close> closes over the
  \<open>favorites\<close> array of the render that created it, while a mutator only queues its
  updater: React applies the queued updaters, in order, to the latest state before the next
  render. \<open>rendered\<close> is the array of the current render and \<open>pending\<close> the state with
  every queued updater applied; \<open>next_render\<close> is the render that follows.
\<close>

record context_value =
  rendered :: "artwork list"
  pending :: "artwork list"

definition call_addToFavorites :: "artwork \<Rightarrow> context_value \<Rightarrow> context_value" where
  "call_addToFavorites a c = c\<lparr>pending := addToFavorites a (pending c)\<rparr>"

definition call_removeFromFavorites :: "int \<Rightarrow> context_value \<Rightarrow> context_value" where
  "call_removeFromFavorites artworkId c =
     c\<lparr>pending := removeFromFavorites artworkId (pending c)\<rparr>"

definition call_isFavorite :: "context_value \<Rightarrow> int \<Rightarrow> bool" where
  "call_isFavorite c artworkId = isFavorite (rendered c) artworkId"

definition next_render :: "context_value \<Rightarrow> context_value" where
  "next_render c = c\<lparr>rendered := pending c\<rparr>"

text \<open>
  \<open>handleFavoriteClick\<close> of the artwork card and of the detail page, the only callers of
  the two mutators: \<^verbatim>\<open>if (isFavorite(artwork.id)) removeFromFavorites(artwork.id) else addToFavorites(artwork)\<close>
  (the toast notifications left out). The test is answered by the current render.
\<close>

definition handleFavoriteClick :: "artwork \<Rightarrow> context_value \<Rightarrow> context_value" where
  "handleFavoriteClick a c =
     (if call_isFavorite c (artwork_id a)
      then call_removeFromFavorites (artwork_id a) c
      else call_addToFavorites a c)"

text \<open>A sequence of calls to the two mutators, applied from left to right.\<close>

datatype fav_op = Add artwork | Remove int

fun apply_op :: "fav_op \<Rightarrow> artwork list \<Rightarrow> artwork list" where
  "apply_op (Add a) favs = addToFavorites a favs"
| "apply_op (Remove i) favs = removeFromFavorites i favs"

fun run_ops :: "fav_op list \<Rightarrow> artwork list \<Rightarrow> artwork list" where
  "run_ops [] favs = favs"
| "run_ops (x # xs) favs = run_ops xs (apply_op x favs)"

text \<open>
  A sequence is \<open>checked\<close> when every \<open>Add\<close> in it is applied to a collection that holds
  no entry with the identifier of the added artwork. The condition is on the collection the
  updater receives (its \<open>prev\<close>), not on what \<open>isFavorite\<close> answered when the call was made:
  that answer comes from the render and can be older.
\<close>

fun checked :: "fav_op list \<Rightarrow> artwork list \<Rightarrow> bool" where
  "checked [] prev = True"
| "checked (Add a # xs) prev =
     (\<not> list_ex (\<lambda>b. artwork_id b = artwork_id a) prev \<and> checked xs (addToFavorites a prev))"
| "checked (Remove i # xs) prev = checked xs (removeFromFavorites i prev)"

definition unique_ids :: "artwork list \<Rightarrow> bool" where
  "unique_ids favs = distinct (map artwork_id favs)"

text \<open>Two concrete records used by the examples below.\<close>

definition sunrise :: artwork where
  "sunrise = \<lparr>artwork_id = 42, title = ''Sunrise'', image_id = Some ''a1b2'',
     artist_title = Some ''Claude Monet'', date_display = Some ''1872'',
     medium_display = None, dimensions = None, artist_display = None,
     place_of_origin = None, description = None, short_description = None\<rparr>"

definition untitled_sketch :: artwork where
  "untitled_sketch = \<lparr>artwork_id = 7, title = ''Sketch'', image_id = None,
     artist_title = None, date_display = None,
     medium_display = None, dimensions = None, artist_display = None,
     place_of_origin = None, description = None, short_description = None\<rparr>"

subsection \<open>Persistence\<close>

text \<open>
  The provider keeps the collection under one key of \<open>localStorage\<close>. \<open>JSON.stringify\<close>
  and \<open>JSON.parse\<close> belong to the platform, not to the repository: they are parameters
  \<open>stringify\<close> and \<open>parse\<close> of the model, \<open>parse\<close> returning \<open>None\<close> where
  \<open>JSON.parse\<close> throws.
\<close>

record provider =
  favorites :: "artwork list"
  stored :: "string option"

text \<open>
  The save effect (dependency \<open>[favorites]\<close>):
  \<^verbatim>\<open>localStorage.setItem('artGalleryFavorites', JSON.stringify(favorites))\<close>
\<close>

definition save_effect :: "(artwork list \<Rightarrow> string) \<Rightarrow> provider \<Rightarrow> provider" where
  "save_effect stringify p = p\<lparr>stored := Some (stringify (favorites p))\<rparr>"

text \<open>
  The load effect (run once, on mount). Its result is the value it hands to
  \<open>setFavorites\<close>, if it calls it at all: an absent entry and the empty string are falsy and
  leave the state alone; a parse error is caught and sets the empty array.
\<close>

definition load_effect :: "(string \<Rightarrow> artwork list option) \<Rightarrow> string option \<Rightarrow> artwork list option" where
  "load_effect parse savedFavorites =
     (case savedFavorites of
        None \<Rightarrow> None
      | Some txt \<Rightarrow>
          if txt = [] then None
          else (case parse txt of Some v \<Rightarrow> Some v | None \<Rightarrow> Some []))"

text \<open>
  Mounting the provider on a given storage entry: the state starts as \<open>[]\<close>; both effects
  run after the first render (the load effect reads the entry, the save effect writes the
  still empty array), and the state update queued by the load effect, if any, causes a
  second render followed by the save effect.
\<close>

definition mount :: "(artwork list \<Rightarrow> string) \<Rightarrow> (string \<Rightarrow> artwork list option) \<Rightarrow> string option \<Rightarrow> provider" where
  "mount stringify parse entry =
     (let p0 = \<lparr>favorites = [], stored = entry\<rparr>;
          queued = load_effect parse (stored p0);
          p1 = save_effect stringify p0
      in case queued of
           None \<Rightarrow> p1
         | Some v \<Rightarrow> save_effect stringify (p1\<lparr>favorites := v\<rparr>))"

text \<open>A mutation through the context: the state update, then the save effect.\<close>

definition mutate :: "(artwork list \<Rightarrow> string) \<Rightarrow> fav_op \<Rightarrow> provider \<Rightarrow> provider" where
  "mutate stringify x p = save_effect stringify (p\<lparr>favorites := apply_op x (favorites p)\<rparr>)"

fun mutations :: "(artwork list \<Rightarrow> string) \<Rightarrow> fav_op list \<Rightarrow> provider \<Rightarrow> provider" where
  "mutations stringify [] p = p"
| "mutations stringify (x # xs) p = mutations stringify xs (mutate stringify x p)"

section \<open>Gallery fetch controller (pages/Gallery.tsx)\<close>

text \<open>
  The file holds three versions of the component, one after the other. They are modelled
  separately and told apart by a suffix: \<open>_v1\<close> (lines 1 to 339), \<open>_v2\<close> (lines 340 to
  562) and \<open>_v3\<close> (lines 563 to 798).
\<close>

subsection \<open>Responses of the catalogue API\<close>

text \<open>
  \<open>ApiResponse<Artwork>\<close>: the records and the pagination block. Its fields \<open>total\<close>,
  \<open>limit\<close> and \<open>offset\<close> carry the prefix \<open>pg_\<close> here; the controller reads only
  \<open>current_page\<close> and \<open>total_pages\<close>.
\<close>

record pagination =
  pg_total :: int
  pg_limit :: int
  pg_offset :: int
  total_pages :: int
  current_page :: int

record api_response =
  data :: "artwork list"
  pagination :: pagination

text \<open>
  What a \<open>try\<close> block can catch: an \<open>Error\<close> object with its message, or any other
  thrown value.
\<close>

datatype thrown = Error_object string | Other_value

text \<open>
  The \<open>Response\<close> that \<open>fetch\<close> resolves to; \<open>json_body\<close> is what \<open>response.json()\<close>
  settles to. A \<open>fetch\<close> that rejects (network error) is \<open>Inl\<close>.
\<close>

record response =
  ok :: bool
  status :: nat
  statusText :: string
  json_body :: "thrown + api_response"

type_synonym fetch_result = "thrown + response"

text \<open>\<open>axios.get\<close> rejects on a network error and on a non-success status.\<close>

type_synonym axios_result = "thrown + api_response"

definition ok_response :: "api_response \<Rightarrow> fetch_result" where
  "ok_response d = Inr \<lparr>ok = True, status = 200, statusText = ''OK'', json_body = Inr d\<rparr>"

text \<open>
  A request fails when \<open>fetch\<close> rejects, when the status is not a success, or when the body
  cannot be decoded: the three ways into the \<open>catch\<close> block.
\<close>

definition fetch_fails :: "fetch_result \<Rightarrow> bool" where
  "fetch_fails r =
     (case r of
        Inl e \<Rightarrow> True
      | Inr resp \<Rightarrow> if ok resp then isl (json_body resp) else True)"

text \<open>Decimal rendering of a number in a template literal.\<close>

function string_of_nat :: "nat \<Rightarrow> string" where
  "string_of_nat n =
     (if n < 10 then [char_of (48 + n)]
      else string_of_nat (n div 10) @ [char_of (48 + n mod 10)])"
  by pat_completeness auto
termination
  by (relation "measure (\<lambda>n. n)") auto

declare string_of_nat.simps [simp del]

text \<open>Truthiness of \<open>artwork.image_id\<close>: present and not the empty string.\<close>

definition has_image :: "artwork \<Rightarrow> bool" where
  "has_image a = (case image_id a of None \<Rightarrow> False | Some i \<Rightarrow> i \<noteq> [])"

subsection \<open>Component state\<close>

text \<open>
  The state hooks shared by the three versions; only the first version has an
  \<open>error\<close> state.
\<close>

record gallery =
  artworks :: "artwork list"
  loading :: bool
  searchTerm :: string
  page :: int
  hasMore :: bool

record gallery_v1 = gallery +
  error :: string

definition initial_v1 :: gallery_v1 where
  "initial_v1 = \<lparr>artworks = [], loading = False, searchTerm = [], page = 1, hasMore = True,
     error = []\<rparr>"

definition initial_v2 :: gallery where
  "initial_v2 = \<lparr>artworks = [], loading = True, searchTerm = [], page = 1, hasMore = True\<rparr>"

definition initial_v3 :: gallery where
  "initial_v3 = \<lparr>artworks = [], loading = True, searchTerm = [], page = 1, hasMore = True\<rparr>"

subsection \<open>First version: \<open>fetchArtworks(query, pageNum, append)\<close>\<close>

text \<open>
  An asynchronous call is split where it awaits the network. \<open>fetchArtworks_start_v1\<close> is
  the part that runs at once (\<open>setLoading(true); setError('')\<close>);
  \<open>fetchArtworks_settle_v1\<close> is the rest, run on the state of the moment the request
  settles: the \<open>try\<close> body after the \<open>await\<close>, the \<open>catch\<close> block and \<open>finally\<close>.
  The query and the page number only go into the URL; the call is recorded as the triple
  \<open>(query, pageNum, append)\<close>. The parameter \<open>append\<close> is written \<open>append'\<close>, the
  plain name being list concatenation in HOL.
\<close>

type_synonym call_v1 = "string \<times> int \<times> bool"

definition fetchArtworks_start_v1 :: "gallery_v1 \<Rightarrow> gallery_v1" where
  "fetchArtworks_start_v1 s = s\<lparr>loading := True, error := []\<rparr>"

text \<open>\<^verbatim>\<open>err instanceof Error ? err.message : 'Failed to fetch artworks'\<close>\<close>

definition errorMessage :: "thrown \<Rightarrow> string" where
  "errorMessage err =
     (case err of Error_object m \<Rightarrow> m | Other_value \<Rightarrow> ''Failed to fetch artworks'')"

definition catch_v1 :: "thrown \<Rightarrow> gallery_v1 \<Rightarrow> gallery_v1" where
  "catch_v1 err s = s\<lparr>error := errorMessage err\<rparr>"

text \<open>
  The awaited part of the \<open>try\<close> block: \<open>fetch\<close>, the test of \<open>response.ok\<close> with its
  \<open>throw\<close>, and \<open>response.json()\<close>. \<open>Inl\<close> is the value that reaches the \<open>catch\<close> block.
\<close>

definition awaited_v1 :: "fetch_result \<Rightarrow> thrown + api_response" where
  "awaited_v1 r =
     (case r of
        Inl err \<Rightarrow> Inl err
      | Inr resp \<Rightarrow>
          if \<not> ok resp
          then Inl (Error_object (''API request failed: '' @ string_of_nat (status resp)
                 @ '' '' @ statusText resp))
          else json_body resp)"

definition fetchArtworks_settle_v1 :: "bool \<Rightarrow> fetch_result \<Rightarrow> gallery_v1 \<Rightarrow> gallery_v1" where
  "fetchArtworks_settle_v1 append' r s =
     (case awaited_v1 r of
        Inl err \<Rightarrow> catch_v1 err s
      | Inr d \<Rightarrow>
          s\<lparr>artworks := (if append' then artworks s @ data d else data d),
            hasMore := current_page (pagination d) < total_pages (pagination d)\<rparr>)
     \<lparr>loading := False\<rparr>"

text \<open>
  \<open>handleLoadMore\<close>: the new state and the call it makes, if any.
\<close>

definition handleLoadMore_v1 :: "gallery_v1 \<Rightarrow> gallery_v1 \<times> call_v1 option" where
  "handleLoadMore_v1 s =
     (if hasMore s \<and> \<not> loading s
      then (let nextPage = page s + 1
            in (fetchArtworks_start_v1 (s\<lparr>page := nextPage\<rparr>),
                Some (searchTerm s, nextPage, True)))
      else (s, None))"

text \<open>
  The render: the error view replaces the grid while \<open>error\<close> is not empty; the button
  is rendered under the grid (a non-empty list) when \<open>hasMore\<close>, with
  \<open>disabled={loading}\<close>. A click reaches the handler only on a rendered, enabled button.
\<close>

definition load_more_clickable_v1 :: "gallery_v1 \<Rightarrow> bool" where
  "load_more_clickable_v1 s =
     (error s = [] \<and> artworks s \<noteq> [] \<and> hasMore s \<and> \<not> loading s)"

definition click_load_more_v1 :: "gallery_v1 \<Rightarrow> gallery_v1 \<times> call_v1 option" where
  "click_load_more_v1 s = (if load_more_clickable_v1 s then handleLoadMore_v1 s else (s, None))"

text \<open>
  The component together with the requests that have been issued and have not settled yet.
  \<open>issue_v1\<close> is a call of \<open>fetchArtworks\<close> up to its \<open>await\<close>.
\<close>

record system_v1 =
  ui :: gallery_v1
  in_flight :: "call_v1 list"

definition issue_v1 :: "call_v1 \<Rightarrow> system_v1 \<Rightarrow> system_v1" where
  "issue_v1 c sys = \<lparr>ui = fetchArtworks_start_v1 (ui sys), in_flight = in_flight sys @ [c]\<rparr>"

text \<open>
  Mounting runs both effects: \<open>fetchArtworks()\<close> with its defaults, and the search
  effect, which for the empty search term does \<open>setPage(1); fetchArtworks('', 1, false)\<close>.
\<close>

definition mount_v1 :: system_v1 where
  "mount_v1 =
     (let sys = issue_v1 ([], 1, False) \<lparr>ui = initial_v1, in_flight = []\<rparr>
      in issue_v1 ([], 1, False) (sys\<lparr>ui := (ui sys)\<lparr>page := 1\<rparr>\<rparr>))"

datatype event_v1 =
    Settle nat fetch_result
  | Click_load_more
  | Change_search string

text \<open>
  \<open>Settle k r\<close>: the \<open>k\<close>-th request in flight settles with \<open>r\<close>. \<open>Change_search v\<close>:
  \<open>setSearchTerm(v)\<close>; when the term changes, the search effect resets the page and fetches
  page 1 of the new term without appending.
\<close>

fun step_v1 :: "event_v1 \<Rightarrow> system_v1 \<Rightarrow> system_v1" where
  "step_v1 (Settle k r) sys =
     (if k < length (in_flight sys)
      then (case in_flight sys ! k of
              (query, pageNum, append') \<Rightarrow>
                \<lparr>ui = fetchArtworks_settle_v1 append' r (ui sys),
                 in_flight = take k (in_flight sys) @ drop (Suc k) (in_flight sys)\<rparr>)
      else sys)"
| "step_v1 Click_load_more sys =
     (case click_load_more_v1 (ui sys) of
        (s, None) \<Rightarrow> sys\<lparr>ui := s\<rparr>
      | (s, Some c) \<Rightarrow> \<lparr>ui = s, in_flight = in_flight sys @ [c]\<rparr>)"
| "step_v1 (Change_search v) sys =
     (if v = searchTerm (ui sys) then sys
      else issue_v1 (v, 1, False) (sys\<lparr>ui := (ui sys)\<lparr>searchTerm := v, page := 1\<rparr>\<rparr>))"

fun run_v1 :: "event_v1 list \<Rightarrow> system_v1 \<Rightarrow> system_v1" where
  "run_v1 [] sys = sys"
| "run_v1 (e # es) sys = run_v1 es (step_v1 e sys)"

subsection \<open>Second version: \<open>fetchArtworks(pageNum, search)\<close> with axios\<close>

type_synonym call_v2 = "int \<times> string"

definition fetchArtworks_start_v2 :: "gallery \<Rightarrow> gallery" where
  "fetchArtworks_start_v2 s = s\<lparr>loading := True\<rparr>"

text \<open>The \<open>catch\<close> block only logs; the records without an image are filtered out first.\<close>

definition fetchArtworks_settle_v2 :: "int \<Rightarrow> axios_result \<Rightarrow> gallery \<Rightarrow> gallery" where
  "fetchArtworks_settle_v2 pageNum r s =
     (case r of
        Inl err \<Rightarrow> s
      | Inr d \<Rightarrow>
          (let newArtworks = filter has_image (data d)
           in s\<lparr>artworks := (if pageNum = 1 then newArtworks else artworks s @ newArtworks),
                hasMore := current_page (pagination d) < total_pages (pagination d)\<rparr>))
     \<lparr>loading := False\<rparr>"

definition loadMore_v2 :: "gallery \<Rightarrow> gallery \<times> call_v2" where
  "loadMore_v2 s =
     (let nextPage = page s + 1
      in (fetchArtworks_start_v2 (s\<lparr>page := nextPage\<rparr>), (nextPage, searchTerm s)))"

text \<open>
  The button is rendered under a non-empty grid when \<open>hasMore\<close>, with
  \<open>disabled={loading}\<close>.
\<close>

definition load_more_clickable_v2 :: "gallery \<Rightarrow> bool" where
  "load_more_clickable_v2 s = (artworks s \<noteq> [] \<and> hasMore s \<and> \<not> loading s)"

definition click_load_more_v2 :: "gallery \<Rightarrow> gallery \<times> call_v2 option" where
  "click_load_more_v2 s =
     (if load_more_clickable_v2 s
      then (case loadMore_v2 s of (s', c) \<Rightarrow> (s', Some c))
      else (s, None))"

subsection \<open>Third version: \<open>fetchArtworks(pageNum, search)\<close> with fetch\<close>

definition fetchArtworks_start_v3 :: "gallery \<Rightarrow> gallery" where
  "fetchArtworks_start_v3 s = s\<lparr>loading := True\<rparr>"

text \<open>The \<open>catch\<close> block logs and empties the list when the first page was asked for.\<close>

definition catch_v3 :: "int \<Rightarrow> gallery \<Rightarrow> gallery" where
  "catch_v3 pageNum s = (if pageNum = 1 then s\<lparr>artworks := []\<rparr> else s)"

definition awaited_v3 :: "fetch_result \<Rightarrow> thrown + api_response" where
  "awaited_v3 r =
     (case r of
        Inl err \<Rightarrow> Inl err
      | Inr resp \<Rightarrow>
          if \<not> ok resp
          then Inl (Error_object (''HTTP error! status: '' @ string_of_nat (status resp)))
          else json_body resp)"

definition fetchArtworks_settle_v3 :: "int \<Rightarrow> fetch_result \<Rightarrow> gallery \<Rightarrow> gallery" where
  "fetchArtworks_settle_v3 pageNum r s =
     (case awaited_v3 r of
        Inl err \<Rightarrow> catch_v3 pageNum s
      | Inr d \<Rightarrow>
          (let newArtworks = filter has_image (data d)
           in s\<lparr>artworks := (if pageNum = 1 then newArtworks else artworks s @ newArtworks),
                hasMore := current_page (pagination d) < total_pages (pagination d)\<rparr>))
     \<lparr>loading := False\<rparr>"

definition loadMore_v3 :: "gallery \<Rightarrow> gallery \<times> call_v2" where
  "loadMore_v3 s =
     (let nextPage = page s + 1
      in (fetchArtworks_start_v3 (s\<lparr>page := nextPage\<rparr>), (nextPage, searchTerm s)))"

definition load_more_clickable_v3 :: "gallery \<Rightarrow> bool" where
  "load_more_clickable_v3 s = (artworks s \<noteq> [] \<and> hasMore s \<and> \<not> loading s)"

definition click_load_more_v3 :: "gallery \<Rightarrow> gallery \<times> call_v2 option" where
  "click_load_more_v3 s =
     (if load_more_clickable_v3 s
      then (case loadMore_v3 s of (s', c) \<Rightarrow> (s', Some c))
      else (s, None))"

section \<open>Values for the examples\<close>

text \<open>
  A stand-in for the platform's pair of JSON functions, enough for the example about
  persistence: it writes a collection as the list of its identifiers and reads back the
  empty collection and the collection holding \<open>sunrise\<close>.
\<close>

definition example_stringify :: "artwork list \<Rightarrow> string" where
  "example_stringify favs =
     ''['' @ concat (map (\<lambda>a. string_of_nat (nat (artwork_id a)) @ '';'') favs) @ '']''"

definition example_parse :: "string \<Rightarrow> artwork list option" where
  "example_parse txt =
     (if txt = ''[]'' then Some []
      else if txt = ''[42;]'' then Some [sunrise]
      else None)"

text \<open>A page of twelve records with images, numbered from \<open>k + 1\<close>, and its response.\<close>

definition twelve :: "int \<Rightarrow> artwork list" where
  "twelve k = map (\<lambda>i. sunrise\<lparr>artwork_id := k + i\<rparr>) [1, 2, 3, 4, 5, 6, 7, 8, 9, 10, 11, 12]"

definition page_of :: "int \<Rightarrow> int \<Rightarrow> artwork list \<Rightarrow> api_response" where
  "page_of cur tot recs =
     \<lparr>data = recs,
      pagination = \<lparr>pg_total = 12 * tot, pg_limit = 12, pg_offset = 12 * (cur - 1),
                    total_pages = tot, current_page = cur\<rparr>\<rparr>"

definition server_error :: fetch_result where
  "server_error =
     Inr \<lparr>ok = False, status = 500, statusText = ''Internal Server Error'',
          json_body = Inl (Error_object ''Unexpected token'')\<rparr>"

definition network_error :: fetch_result where
  "network_error = Inl (Error_object ''Failed to fetch'')"

section \<open>Favorites store: properties\<close>

lemma isFavorite_iff: "isFavorite favs i \<longleftrightarrow> i \<in> artwork_id ` set favs"
  by (auto simp: isFavorite_def list_ex_iff)

lemma unique_ids_add:
  "unique_ids prev \<Longrightarrow> \<not> list_ex (\<lambda>b. artwork_id b = artwork_id a) prev \<Longrightarrow>
   unique_ids (addToFavorites a prev)"
  by (auto simp: unique_ids_def addToFavorites_def list_ex_iff)

lemma unique_ids_remove: "unique_ids favs \<Longrightarrow> unique_ids (removeFromFavorites i favs)"
  by (simp add: unique_ids_def removeFromFavorites_def distinct_map_filter)

lemma unique_ids_apply_op:
  "unique_ids favs \<Longrightarrow> checked (x # xs) favs \<Longrightarrow> unique_ids (apply_op x favs)"
  by (cases x) (simp_all add: unique_ids_add unique_ids_remove)

lemma checked_tail: "checked (x # xs) favs \<Longrightarrow> checked xs (apply_op x favs)"
  by (cases x) simp_all

text \<open>
  A click on a render that shows the latest state keeps the identifiers unique; two clicks
  on one render, answered by the same \<open>isFavorite\<close>, add the artwork twice.
\<close>

lemma unique_ids_handleFavoriteClick:
  "rendered c = pending c \<Longrightarrow> unique_ids (pending c) \<Longrightarrow>
   unique_ids (pending (handleFavoriteClick a c))"
  by (simp add: handleFavoriteClick_def call_isFavorite_def call_addToFavorites_def
      call_removeFromFavorites_def isFavorite_def unique_ids_add unique_ids_remove)

lemma two_clicks_on_one_render:
  "pending (handleFavoriteClick sunrise (handleFavoriteClick sunrise \<lparr>rendered = [], pending = []\<rparr>))
     = [sunrise, sunrise]"
  by (simp add: handleFavoriteClick_def call_isFavorite_def call_addToFavorites_def
      isFavorite_def addToFavorites_def)

text \<open>
  Claim C1, as stated: after every sequence of \<open>addToFavorites\<close> and
  \<open>removeFromFavorites\<close> from the empty collection, no two entries share an identifier.
  The store does not enforce it: \<open>addToFavorites\<close> appends whatever it is given, so adding
  the same artwork twice leaves two entries with identifier 42.
\<close>

theorem duplicate_add_counterexample:
  "\<not> unique_ids (run_ops [Add sunrise, Add sunrise] [])"
  by (simp add: unique_ids_def addToFavorites_def)

text \<open>
  Claim C1, amended: starting from a collection without duplicate identifiers (the empty
  one, for instance), every sequence of \<open>addToFavorites\<close> and \<open>removeFromFavorites\<close> in
  which each \<open>addToFavorites(artwork)\<close> is applied to a collection holding no entry with
  that identifier leaves the collection without duplicate identifiers.
\<close>

theorem checked_ops_unique_ids:
  assumes "unique_ids favs" and "checked ops favs"
  shows "unique_ids (run_ops ops favs)"
  using assms
proof (induction ops arbitrary: favs)
  case Nil
  then show ?case by simp
next
  case (Cons x xs)
  have "unique_ids (apply_op x favs)"
    using Cons.prems by (rule unique_ids_apply_op)
  moreover have "checked xs (apply_op x favs)"
    using Cons.prems(2) by (rule checked_tail)
  ultimately show ?case
    using Cons.IH by simp
qed

theorem checked_ops_unique_ids_witness:
  "unique_ids []
   \<and> checked [Add sunrise, Remove 42, Add sunrise, Add untitled_sketch] []
   \<and> unique_ids (run_ops [Add sunrise, Remove 42, Add sunrise, Add untitled_sketch] [])"
proof -
  have u: "unique_ids []"
    by (simp add: unique_ids_def)
  have c: "checked [Add sunrise, Remove 42, Add sunrise, Add untitled_sketch] []"
    by (simp add: addToFavorites_def removeFromFavorites_def sunrise_def untitled_sketch_def)
  show ?thesis
    using u c checked_ops_unique_ids [OF u c] by simp
qed

text \<open>
  Claim C7: \<open>removeFromFavorites(id)\<close> keeps exactly the entries whose identifier differs
  from \<open>id\<close>, in their order; it is a total function of the collection (a \<open>filter\<close>, with no
  failing branch); and when no entry has the identifier, the collection is unchanged.
\<close>

theorem removeFromFavorites_removes_all:
  "set (removeFromFavorites i favs) = {a \<in> set favs. artwork_id a \<noteq> i}
   \<and> subseq (removeFromFavorites i favs) favs
   \<and> (\<not> isFavorite favs i \<longrightarrow> removeFromFavorites i favs = favs)"
  by (auto simp: removeFromFavorites_def isFavorite_iff filter_id_conv)

theorem removeFromFavorites_removes_all_witness:
  "\<not> isFavorite [sunrise, untitled_sketch] 5
   \<and> removeFromFavorites 5 [sunrise, untitled_sketch] = [sunrise, untitled_sketch]
   \<and> set (removeFromFavorites 42 [sunrise, untitled_sketch, sunrise]) = {untitled_sketch}"
proof -
  have h: "\<not> isFavorite [sunrise, untitled_sketch] 5"
    by (simp add: isFavorite_def sunrise_def untitled_sketch_def)
  have "{a \<in> set [sunrise, untitled_sketch, sunrise]. artwork_id a \<noteq> 42} = {untitled_sketch}"
    by (auto simp: sunrise_def untitled_sketch_def)
  then show ?thesis
    using h removeFromFavorites_removes_all [of 5 "[sunrise, untitled_sketch]"]
      removeFromFavorites_removes_all [of 42 "[sunrise, untitled_sketch, sunrise]"]
    by simp
qed

text \<open>
  Claim C8, as stated: immediately after \<open>addToFavorites(artwork)\<close>, \<open>isFavorite\<close> of the
  artwork's identifier returns true, and immediately after \<open>removeFromFavorites(id)\<close> it
  returns false. The \<open>isFavorite\<close> at hand right after the call is the one of the current
  render, which the call has not changed: on an empty collection it still answers false
  after \<open>addToFavorites\<close> of the artwork 42, and on a collection holding that artwork it
  still answers true after \<open>removeFromFavorites(42)\<close>.
\<close>

theorem isFavorite_same_render_counterexample:
  "artwork_id sunrise = 42
   \<and> \<not> call_isFavorite (call_addToFavorites sunrise \<lparr>rendered = [], pending = []\<rparr>) 42
   \<and> call_isFavorite
        (call_removeFromFavorites 42 \<lparr>rendered = [sunrise], pending = [sunrise]\<rparr>) 42"
  by (simp add: call_isFavorite_def call_addToFavorites_def call_removeFromFavorites_def
      isFavorite_def sunrise_def)

text \<open>
  Claim C8, amended: on the collection that \<open>addToFavorites(artwork)\<close> produces,
  \<open>isFavorite\<close> of the artwork's identifier is true, and on the collection that
  \<open>removeFromFavorites(id)\<close> produces, \<open>isFavorite(id)\<close> is false; these are the answers
  of the context value of the render that follows the call. The \<open>isFavorite\<close> of the
  render in which the mutator was called answers after the call what it answered before.
\<close>

theorem isFavorite_after_add_and_remove:
  "isFavorite (addToFavorites a favs) (artwork_id a)
   \<and> \<not> isFavorite (removeFromFavorites i favs) i
   \<and> call_isFavorite (next_render (call_addToFavorites a c)) (artwork_id a)
   \<and> \<not> call_isFavorite (next_render (call_removeFromFavorites i c)) i
   \<and> call_isFavorite (call_addToFavorites a c) j = call_isFavorite c j
   \<and> call_isFavorite (call_removeFromFavorites i c) j = call_isFavorite c j"
  by (auto simp: isFavorite_iff addToFavorites_def removeFromFavorites_def call_isFavorite_def
      call_addToFavorites_def call_removeFromFavorites_def next_render_def)

subsection \<open>Persistence\<close>

lemma stored_mount:
  "stored (mount stringify parse e) = Some (stringify (favorites (mount stringify parse e)))"
  by (simp add: mount_def save_effect_def Let_def split: option.split)

lemma stored_mutate:
  "stored (mutate stringify x p) = Some (stringify (favorites (mutate stringify x p)))"
  by (simp add: mutate_def save_effect_def)

lemma favorites_mutate: "favorites (mutate stringify x p) = apply_op x (favorites p)"
  by (simp add: mutate_def save_effect_def)

lemma stored_mutations:
  "stored p = Some (stringify (favorites p)) \<Longrightarrow>
   stored (mutations stringify xs p) = Some (stringify (favorites (mutations stringify xs p)))"
  by (induction xs arbitrary: p) (simp_all add: stored_mutate)

lemma favorites_mutations: "favorites (mutations stringify xs p) = run_ops xs (favorites p)"
  by (induction xs arbitrary: p) (simp_all add: favorites_mutate)

lemma favorites_mount_roundtrip:
  "parse (stringify favs) = Some favs \<Longrightarrow> stringify favs \<noteq> [] \<Longrightarrow>
   favorites (mount stringify parse (Some (stringify favs))) = favs"
  by (simp add: mount_def load_effect_def save_effect_def)

lemma string_of_nat_42: "string_of_nat 42 = ''42''"
  by code_simp

lemma example_stringify_sunrise: "example_stringify [sunrise] = ''[42;]''"
  by (simp add: example_stringify_def sunrise_def string_of_nat_42)

text \<open>
  Claim C4: let \<open>p\<close> be the provider after any sequence of \<open>addToFavorites\<close> and
  \<open>removeFromFavorites\<close> calls on a mounted provider. Its in-memory collection is the
  result of the calls, the stored entry is the serialization of that collection, and a
  provider mounted on the stored entry holds the same collection again, provided the
  platform's \<open>JSON.parse\<close> reads back what its \<open>JSON.stringify\<close> wrote for this
  collection (and the text written is not empty, as it never is for an array).
\<close>

theorem reload_after_mutations:
  assumes "p = mutations stringify ops (mount stringify parse entry)"
    and "parse (stringify (favorites p)) = Some (favorites p)"
    and "stringify (favorites p) \<noteq> []"
  shows "favorites p = run_ops ops (favorites (mount stringify parse entry))
    \<and> stored p = Some (stringify (favorites p))
    \<and> favorites (mount stringify parse (stored p)) = favorites p"
proof -
  have "favorites p = run_ops ops (favorites (mount stringify parse entry))"
    unfolding assms(1) by (rule favorites_mutations)
  moreover have "stored p = Some (stringify (favorites p))"
    unfolding assms(1) by (rule stored_mutations) (rule stored_mount)
  ultimately show ?thesis
    using assms(2,3) by (simp add: favorites_mount_roundtrip)
qed

theorem reload_after_mutations_witness:
  "example_parse (example_stringify [sunrise]) = Some [sunrise]
   \<and> example_stringify [sunrise] \<noteq> []
   \<and> favorites (mutations example_stringify [Add sunrise]
        (mount example_stringify example_parse None)) = [sunrise]
   \<and> stored (mutations example_stringify [Add sunrise]
        (mount example_stringify example_parse None)) = Some ''[42;]''
   \<and> favorites (mount example_stringify example_parse (Some ''[42;]'')) = [sunrise]"
proof -
  let ?p = "mutations example_stringify [Add sunrise] (mount example_stringify example_parse None)"
  have f: "favorites ?p = [sunrise]"
    by (simp add: favorites_mutate mount_def load_effect_def save_effect_def
        addToFavorites_def)
  have a: "example_parse (example_stringify [sunrise]) = Some [sunrise]"
    by (simp add: example_stringify_sunrise example_parse_def)
  have b: "example_stringify [sunrise] \<noteq> []"
    by (simp add: example_stringify_sunrise)
  have r: "favorites ?p = run_ops [Add sunrise] (favorites (mount example_stringify example_parse None))
      \<and> stored ?p = Some (example_stringify (favorites ?p))
      \<and> favorites (mount example_stringify example_parse (stored ?p)) = favorites ?p"
    by (rule reload_after_mutations [OF refl]) (simp_all only: f a b not_False_eq_True)
  have s: "stored ?p = Some ''[42;]''"
    using conjunct1 [OF conjunct2 [OF r]] unfolding f example_stringify_sunrise .
  have "favorites (mount example_stringify example_parse (stored ?p)) = favorites ?p"
    by (rule conjunct2 [OF conjunct2 [OF r]])
  then have m: "favorites (mount example_stringify example_parse (Some ''[42;]'')) = [sunrise]"
    unfolding s f .
  from a b f s m show ?thesis
    by (intro conjI)
qed

section \<open>Gallery fetch controller: properties\<close>

lemma isl_awaited_v1: "isl (awaited_v1 r) = fetch_fails r"
  by (simp add: awaited_v1_def fetch_fails_def split: sum.split)

lemma isl_awaited_v3: "isl (awaited_v3 r) = fetch_fails r"
  by (simp add: awaited_v3_def fetch_fails_def split: sum.split)

lemma awaited_v1_success:
  "awaited_v1 (Inr \<lparr>ok = True, status = st, statusText = tx, json_body = Inr d\<rparr>) = Inr d"
  by (simp add: awaited_v1_def)

lemma awaited_v3_success:
  "awaited_v3 (Inr \<lparr>ok = True, status = st, statusText = tx, json_body = Inr d\<rparr>) = Inr d"
  by (simp add: awaited_v3_def)

lemma settle_v1_caught:
  "awaited_v1 r = Inl err \<Longrightarrow>
   fetchArtworks_settle_v1 a r s = s\<lparr>loading := False, error := errorMessage err\<rparr>"
  by (simp add: fetchArtworks_settle_v1_def catch_v1_def)

lemma settle_v1_success:
  "awaited_v1 r = Inr d \<Longrightarrow>
   fetchArtworks_settle_v1 a r s =
     s\<lparr>artworks := (if a then artworks s @ data d else data d),
       hasMore := current_page (pagination d) < total_pages (pagination d),
       loading := False\<rparr>"
  by (simp add: fetchArtworks_settle_v1_def)

lemma settle_v2_caught: "fetchArtworks_settle_v2 p (Inl err) g = g\<lparr>loading := False\<rparr>"
  by (simp add: fetchArtworks_settle_v2_def)

lemma settle_v2_success:
  "fetchArtworks_settle_v2 p (Inr d) g =
     g\<lparr>artworks := (if p = 1 then [] else artworks g) @ filter has_image (data d),
       hasMore := current_page (pagination d) < total_pages (pagination d),
       loading := False\<rparr>"
  by (simp add: fetchArtworks_settle_v2_def Let_def)

lemma settle_v3_caught:
  "awaited_v3 r = Inl err \<Longrightarrow>
   fetchArtworks_settle_v3 p r g = g\<lparr>artworks := (if p = 1 then [] else artworks g), loading := False\<rparr>"
  by (simp add: fetchArtworks_settle_v3_def catch_v3_def)

lemma settle_v3_success:
  "awaited_v3 r = Inr d \<Longrightarrow>
   fetchArtworks_settle_v3 p r g =
     g\<lparr>artworks := (if p = 1 then [] else artworks g) @ filter has_image (data d),
       hasMore := current_page (pagination d) < total_pages (pagination d),
       loading := False\<rparr>"
  by (simp add: fetchArtworks_settle_v3_def Let_def)

lemma fails_v1_obtain: "fetch_fails r \<Longrightarrow> \<exists>err. awaited_v1 r = Inl err"
  by (cases "awaited_v1 r") (use isl_awaited_v1 [of r] in auto)

lemma fails_v3_obtain: "fetch_fails r \<Longrightarrow> \<exists>err. awaited_v3 r = Inl err"
  by (cases "awaited_v3 r") (use isl_awaited_v3 [of r] in auto)

text \<open>
  Claim C2, as stated: every failing fetch records an error message and leaves the result
  list unchanged. The third version has no error state, and its \<open>catch\<close> block empties
  the list when the failing request was for page 1: a list holding one record is empty
  after a first-page request that fails with a network error.
\<close>

theorem first_page_failure_clears_list_counterexample:
  "fetch_fails network_error
   \<and> artworks (initial_v3\<lparr>artworks := [sunrise]\<rparr>) = [sunrise]
   \<and> artworks (fetchArtworks_settle_v3 1 network_error
        (fetchArtworks_start_v3 (initial_v3\<lparr>artworks := [sunrise]\<rparr>))) = []"
  by (simp add: fetch_fails_def network_error_def fetchArtworks_settle_v3_def awaited_v3_def
      catch_v3_def fetchArtworks_start_v3_def initial_v3_def)

text \<open>
  Claim C2, amended: in the first version, a fetch that fails sets the \<open>error\<close> state to
  the caught error's message (the fixed text \<open>Failed to fetch artworks\<close> for a thrown
  value that is not an \<open>Error\<close>) and leaves the result list unchanged. In the third
  version a failing fetch leaves the result list unchanged when the page asked for is not
  1, and replaces it by the empty list when it is 1; that version records no message.
\<close>

theorem failed_fetch_policy:
  assumes "fetch_fails r"
  shows "(\<exists>err. awaited_v1 r = Inl err \<and> error (fetchArtworks_settle_v1 a r s) = errorMessage err)
    \<and> artworks (fetchArtworks_settle_v1 a r s) = artworks s
    \<and> artworks (fetchArtworks_settle_v3 p r g) = (if p = 1 then [] else artworks g)"
proof -
  obtain e1 where e1: "awaited_v1 r = Inl e1"
    using assms fails_v1_obtain by blast
  obtain e3 where e3: "awaited_v3 r = Inl e3"
    using assms fails_v3_obtain by blast
  show ?thesis
    by (simp add: e1 settle_v1_caught [OF e1] settle_v3_caught [OF e3])
qed

lemma string_of_nat_500: "string_of_nat 500 = ''500''"
  by code_simp

lemma awaited_v1_server_error:
  "awaited_v1 server_error = Inl (Error_object ''API request failed: 500 Internal Server Error'')"
  by (simp add: awaited_v1_def server_error_def string_of_nat_500)

theorem failed_fetch_policy_witness:
  "fetch_fails server_error
   \<and> error (fetchArtworks_settle_v1 True server_error
        (fetchArtworks_start_v1 (initial_v1\<lparr>artworks := [sunrise]\<rparr>)))
       = ''API request failed: 500 Internal Server Error''
   \<and> artworks (fetchArtworks_settle_v1 True server_error
        (fetchArtworks_start_v1 (initial_v1\<lparr>artworks := [sunrise]\<rparr>))) = [sunrise]
   \<and> artworks (fetchArtworks_settle_v3 2 server_error (initial_v3\<lparr>artworks := [sunrise]\<rparr>))
       = [sunrise]"
proof -
  have h: "fetch_fails server_error"
    by (simp add: fetch_fails_def server_error_def)
  show ?thesis
    using h failed_fetch_policy [OF h, of True "fetchArtworks_start_v1 (initial_v1\<lparr>artworks := [sunrise]\<rparr>)"
        2 "initial_v3\<lparr>artworks := [sunrise]\<rparr>"]
    by (simp add: awaited_v1_server_error errorMessage_def fetchArtworks_start_v1_def
        initial_v1_def initial_v3_def)
qed

text \<open>
  Claim C3: after a successful response, \<open>hasMore\<close> is true exactly when the response's
  \<open>current_page\<close> is less than its \<open>total_pages\<close>, in each of the three versions; for
  \<open>current_page = 2, total_pages = 5\<close> it is true and for \<open>current_page = 5,
  total_pages = 5\<close> it is false.
\<close>

theorem hasMore_after_success:
  "hasMore (fetchArtworks_settle_v1 a
       (Inr \<lparr>ok = True, status = st, statusText = tx, json_body = Inr d\<rparr>) s)
     = (current_page (pagination d) < total_pages (pagination d))
   \<and> hasMore (fetchArtworks_settle_v2 p (Inr d) g)
     = (current_page (pagination d) < total_pages (pagination d))
   \<and> hasMore (fetchArtworks_settle_v3 p
       (Inr \<lparr>ok = True, status = st, statusText = tx, json_body = Inr d\<rparr>) g)
     = (current_page (pagination d) < total_pages (pagination d))
   \<and> hasMore (fetchArtworks_settle_v1 a (ok_response (page_of 2 5 recs)) s)
   \<and> \<not> hasMore (fetchArtworks_settle_v1 a (ok_response (page_of 5 5 recs)) s)
   \<and> hasMore (fetchArtworks_settle_v2 p (Inr (page_of 2 5 recs)) g)
   \<and> \<not> hasMore (fetchArtworks_settle_v2 p (Inr (page_of 5 5 recs)) g)
   \<and> hasMore (fetchArtworks_settle_v3 p (ok_response (page_of 2 5 recs)) g)
   \<and> \<not> hasMore (fetchArtworks_settle_v3 p (ok_response (page_of 5 5 recs)) g)"
  by (simp add: settle_v1_success [OF awaited_v1_success] settle_v2_success
      settle_v3_success [OF awaited_v3_success] ok_response_def page_of_def)


lemma awaited_v1_ok_response: "awaited_v1 (ok_response d) = Inr d"
  by (simp add: ok_response_def awaited_v1_def)

lemma awaited_v3_ok_response: "awaited_v3 (ok_response d) = Inr d"
  by (simp add: ok_response_def awaited_v3_def)

lemma filter_has_image_id: "list_all has_image xs \<Longrightarrow> filter has_image xs = xs"
  by (simp add: list_all_iff)

text \<open>
  Claim C5, as stated: a successful non-appending fetch replaces the result list by the
  response's records. The second version filters first: a first-page response whose only
  record has no image leaves the list empty, not equal to the response's records.
\<close>

theorem imageless_record_not_merged_counterexample:
  "artworks (fetchArtworks_settle_v2 1 (Inr (page_of 1 3 [untitled_sketch])) initial_v2)
     \<noteq> data (page_of 1 3 [untitled_sketch])"
  by (simp add: settle_v2_success page_of_def has_image_def untitled_sketch_def)

lemma twelve_then_twelve_v1:
  assumes "length (data d1) = 12" and "length (data d2) = 12"
    and "current_page (pagination d1) < total_pages (pagination d1)"
  shows "(let s1 = fetchArtworks_settle_v1 False (ok_response d1) (fetchArtworks_start_v1 s)
          in length (artworks s1) = 12
             \<and> snd (handleLoadMore_v1 s1) = Some (searchTerm s, page s + 1, True)
             \<and> length (artworks (fetchArtworks_settle_v1 True (ok_response d2)
                  (fst (handleLoadMore_v1 s1)))) = 24)"
  using assms
  by (simp add: settle_v1_success [OF awaited_v1_ok_response] handleLoadMore_v1_def
      fetchArtworks_start_v1_def Let_def)

lemma twelve_then_twelve_v2:
  assumes "length (data d1) = 12" and "length (data d2) = 12"
    and "list_all has_image (data d1)" and "list_all has_image (data d2)"
    and "page g = 1"
  shows "(let g1 = fetchArtworks_settle_v2 1 (Inr d1) (fetchArtworks_start_v2 g)
          in length (artworks g1) = 12
             \<and> snd (loadMore_v2 g1) = (2, searchTerm g)
             \<and> length (artworks (fetchArtworks_settle_v2 2 (Inr d2) (fst (loadMore_v2 g1)))) = 24)"
  using assms
  by (simp add: settle_v2_success loadMore_v2_def fetchArtworks_start_v2_def Let_def
      filter_has_image_id)

text \<open>
  Claim C5, amended: in the first version a successful fetch replaces the result list by
  the response's records when \<open>append\<close> is false and appends them to the existing list when
  it is true. In the second version the same is done with the response's records that have
  an image, replacing when the page number is 1 and appending otherwise. In particular a
  first-page fetch of 12 records (all with an image, for the second version) gives a list
  of 12 entries, and the load-more that follows, delivering 12 more, gives 24.
\<close>

theorem merge_on_success:
  "artworks (fetchArtworks_settle_v1 False
       (Inr \<lparr>ok = True, status = st, statusText = tx, json_body = Inr d\<rparr>) s) = data d
   \<and> artworks (fetchArtworks_settle_v1 True
       (Inr \<lparr>ok = True, status = st, statusText = tx, json_body = Inr d\<rparr>) s)
       = artworks s @ data d
   \<and> artworks (fetchArtworks_settle_v2 1 (Inr d) g) = filter has_image (data d)
   \<and> (p \<noteq> 1 \<longrightarrow>
        artworks (fetchArtworks_settle_v2 p (Inr d) g) = artworks g @ filter has_image (data d))
   \<and> (length (data d1) = 12 \<and> length (data d2) = 12
        \<and> current_page (pagination d1) < total_pages (pagination d1) \<longrightarrow>
        (let s1 = fetchArtworks_settle_v1 False (ok_response d1) (fetchArtworks_start_v1 s)
         in length (artworks s1) = 12
            \<and> snd (handleLoadMore_v1 s1) = Some (searchTerm s, page s + 1, True)
            \<and> length (artworks (fetchArtworks_settle_v1 True (ok_response d2)
                 (fst (handleLoadMore_v1 s1)))) = 24))
   \<and> (length (data d1) = 12 \<and> length (data d2) = 12
        \<and> list_all has_image (data d1) \<and> list_all has_image (data d2) \<and> page g = 1 \<longrightarrow>
        (let g1 = fetchArtworks_settle_v2 1 (Inr d1) (fetchArtworks_start_v2 g)
         in length (artworks g1) = 12
            \<and> snd (loadMore_v2 g1) = (2, searchTerm g)
            \<and> length (artworks (fetchArtworks_settle_v2 2 (Inr d2) (fst (loadMore_v2 g1)))) = 24))"
proof (intro conjI impI)
  show "artworks (fetchArtworks_settle_v1 False
       (Inr \<lparr>ok = True, status = st, statusText = tx, json_body = Inr d\<rparr>) s) = data d"
    by (simp add: settle_v1_success [OF awaited_v1_success])
  show "artworks (fetchArtworks_settle_v1 True
       (Inr \<lparr>ok = True, status = st, statusText = tx, json_body = Inr d\<rparr>) s)
       = artworks s @ data d"
    by (simp add: settle_v1_success [OF awaited_v1_success])
  show "artworks (fetchArtworks_settle_v2 1 (Inr d) g) = filter has_image (data d)"
    by (simp add: settle_v2_success)
  show "artworks (fetchArtworks_settle_v2 p (Inr d) g) = artworks g @ filter has_image (data d)"
    if "p \<noteq> 1"
    using that by (simp add: settle_v2_success)
next
  assume "length (data d1) = 12 \<and> length (data d2) = 12
        \<and> current_page (pagination d1) < total_pages (pagination d1)"
  then show "(let s1 = fetchArtworks_settle_v1 False (ok_response d1) (fetchArtworks_start_v1 s)
         in length (artworks s1) = 12
            \<and> snd (handleLoadMore_v1 s1) = Some (searchTerm s, page s + 1, True)
            \<and> length (artworks (fetchArtworks_settle_v1 True (ok_response d2)
                 (fst (handleLoadMore_v1 s1)))) = 24)"
    using twelve_then_twelve_v1 by blast
next
  assume "length (data d1) = 12 \<and> length (data d2) = 12
        \<and> list_all has_image (data d1) \<and> list_all has_image (data d2) \<and> page g = 1"
  then show "(let g1 = fetchArtworks_settle_v2 1 (Inr d1) (fetchArtworks_start_v2 g)
         in length (artworks g1) = 12
            \<and> snd (loadMore_v2 g1) = (2, searchTerm g)
            \<and> length (artworks (fetchArtworks_settle_v2 2 (Inr d2) (fst (loadMore_v2 g1)))) = 24)"
    using twelve_then_twelve_v2 by blast
qed


lemma length_twelve: "length (twelve k) = 12"
  by (simp add: twelve_def)

lemma has_image_twelve: "list_all has_image (twelve k)"
  by (simp add: twelve_def has_image_def sunrise_def)

lemma data_page_of: "data (page_of cur tot recs) = recs"
  by (simp add: page_of_def)

theorem merge_on_success_witness:
  "length (data (page_of 1 3 (twelve 0))) = 12
   \<and> length (data (page_of 2 3 (twelve 12))) = 12
   \<and> current_page (pagination (page_of 1 3 (twelve 0)))
       < total_pages (pagination (page_of 1 3 (twelve 0)))
   \<and> list_all has_image (data (page_of 1 3 (twelve 0)))
   \<and> list_all has_image (data (page_of 2 3 (twelve 12)))
   \<and> page initial_v2 = 1
   \<and> (2::int) \<noteq> 1
   \<and> length (artworks (fetchArtworks_settle_v1 True (ok_response (page_of 2 3 (twelve 12)))
        (fst (handleLoadMore_v1 (fetchArtworks_settle_v1 False (ok_response (page_of 1 3 (twelve 0)))
          (fetchArtworks_start_v1 initial_v1)))))) = 24
   \<and> length (artworks (fetchArtworks_settle_v2 2 (Inr (page_of 2 3 (twelve 12)))
        (fst (loadMore_v2 (fetchArtworks_settle_v2 1 (Inr (page_of 1 3 (twelve 0)))
          (fetchArtworks_start_v2 initial_v2)))))) = 24
   \<and> artworks (fetchArtworks_settle_v2 2 (Inr (page_of 2 3 (twelve 12))) initial_v2)
       = artworks initial_v2 @ filter has_image (data (page_of 2 3 (twelve 12)))"
proof -
  have h: "length (data (page_of 1 3 (twelve 0))) = 12
      \<and> length (data (page_of 2 3 (twelve 12))) = 12
      \<and> current_page (pagination (page_of 1 3 (twelve 0)))
          < total_pages (pagination (page_of 1 3 (twelve 0)))"
    by (simp add: data_page_of length_twelve) (simp add: page_of_def)
  have i: "list_all has_image (data (page_of 1 3 (twelve 0)))
      \<and> list_all has_image (data (page_of 2 3 (twelve 12)))"
    by (simp add: data_page_of has_image_twelve)
  have q: "page initial_v2 = 1"
    by (simp add: initial_v2_def)
  show ?thesis
    using h i q
      merge_on_success [of 200 "''OK''" "page_of 2 3 (twelve 12)" initial_v1 initial_v2 2
        "page_of 1 3 (twelve 0)" "page_of 2 3 (twelve 12)"]
    by (simp add: Let_def)
qed

lemma list_all_settle_v2:
  "list_all has_image (artworks g) \<Longrightarrow> list_all has_image (artworks (fetchArtworks_settle_v2 p r g))"
  by (cases r) (auto simp: settle_v2_caught settle_v2_success list_all_iff)

lemma list_all_settle_v3:
  "list_all has_image (artworks g) \<Longrightarrow> list_all has_image (artworks (fetchArtworks_settle_v3 p r g))"
  by (cases "awaited_v3 r") (auto simp: settle_v3_caught settle_v3_success list_all_iff)

text \<open>
  Claim C6: in the second and third versions a successful fetch merges only the
  response's records that have an image, so that every entry of the result list has one:
  the list is empty at first, and every step of the component (a settled request,
  successful or not, the start of a request, a load-more) keeps the property.
\<close>

theorem result_list_has_images:
  "artworks (fetchArtworks_settle_v2 p (Inr d) g)
     = (if p = 1 then [] else artworks g) @ filter has_image (data d)
   \<and> artworks (fetchArtworks_settle_v3 p
        (Inr \<lparr>ok = True, status = st, statusText = tx, json_body = Inr d\<rparr>) g)
     = (if p = 1 then [] else artworks g) @ filter has_image (data d)
   \<and> list_all has_image (artworks initial_v2)
   \<and> list_all has_image (artworks initial_v3)
   \<and> (list_all has_image (artworks g) \<longrightarrow>
        list_all has_image (artworks (fetchArtworks_settle_v2 p r2 g))
        \<and> list_all has_image (artworks (fetchArtworks_settle_v3 p r3 g))
        \<and> list_all has_image (artworks (fetchArtworks_start_v2 g))
        \<and> list_all has_image (artworks (fetchArtworks_start_v3 g))
        \<and> list_all has_image (artworks (fst (loadMore_v2 g)))
        \<and> list_all has_image (artworks (fst (loadMore_v3 g))))"
  by (simp add: settle_v2_success settle_v3_success [OF awaited_v3_success]
      list_all_settle_v2 list_all_settle_v3 initial_v2_def initial_v3_def
      fetchArtworks_start_v2_def fetchArtworks_start_v3_def loadMore_v2_def loadMore_v3_def
      Let_def)

theorem result_list_has_images_witness:
  "list_all has_image (artworks (initial_v2\<lparr>artworks := [sunrise]\<rparr>))
   \<and> artworks (fetchArtworks_settle_v2 2
        (Inr (page_of 2 3 [untitled_sketch, sunrise\<lparr>artwork_id := 43\<rparr>]))
        (initial_v2\<lparr>artworks := [sunrise]\<rparr>))
      = [sunrise, sunrise\<lparr>artwork_id := 43\<rparr>]
   \<and> list_all has_image (artworks (fetchArtworks_settle_v2 2
        (Inr (page_of 2 3 [untitled_sketch, sunrise\<lparr>artwork_id := 43\<rparr>]))
        (initial_v2\<lparr>artworks := [sunrise]\<rparr>)))
   \<and> list_all has_image (artworks (fetchArtworks_settle_v3 2
        (ok_response (page_of 2 3 [untitled_sketch, sunrise\<lparr>artwork_id := 43\<rparr>]))
        (initial_v3\<lparr>artworks := [sunrise]\<rparr>)))"
proof -
  have h: "list_all has_image (artworks (initial_v2\<lparr>artworks := [sunrise]\<rparr>))"
    by (simp add: has_image_def sunrise_def)
  have f: "filter has_image [untitled_sketch, sunrise\<lparr>artwork_id := 43\<rparr>]
      = [sunrise\<lparr>artwork_id := 43\<rparr>]"
    by (simp add: has_image_def sunrise_def untitled_sketch_def)
  show ?thesis
    using h result_list_has_images [of 2 "page_of 2 3 [untitled_sketch, sunrise\<lparr>artwork_id := 43\<rparr>]"
        "initial_v2\<lparr>artworks := [sunrise]\<rparr>" 200 "''OK''"
        "Inr (page_of 2 3 [untitled_sketch, sunrise\<lparr>artwork_id := 43\<rparr>])"
        "ok_response (page_of 2 3 [untitled_sketch, sunrise\<lparr>artwork_id := 43\<rparr>])"]
    by (simp add: data_page_of ok_response_def has_image_def sunrise_def untitled_sketch_def
        initial_v2_def initial_v3_def)
qed


text \<open>
  Claim C9, as stated: a load-more fetch is never issued while another fetch is in flight.
  What the code tests is the \<open>loading\<close> flag, and \<open>finally\<close> clears it when any request
  settles. Mounting the first version issues two requests for page 1; when the first has
  settled, the second is still in flight, the button is enabled, and a click issues the
  request for page 2.
\<close>

theorem load_more_while_in_flight_counterexample:
  "in_flight mount_v1 = [([], 1, False), ([], 1, False)]
   \<and> in_flight (run_v1 [Settle 0 (ok_response (page_of 1 3 (twelve 0)))] mount_v1)
     = [([], 1, False)]
   \<and> hasMore (ui (run_v1 [Settle 0 (ok_response (page_of 1 3 (twelve 0)))] mount_v1))
   \<and> \<not> loading (ui (run_v1 [Settle 0 (ok_response (page_of 1 3 (twelve 0)))] mount_v1))
   \<and> in_flight (run_v1 [Settle 0 (ok_response (page_of 1 3 (twelve 0))), Click_load_more] mount_v1)
     = [([], 1, False), ([], 2, True)]"
  by (simp add: mount_v1_def issue_v1_def initial_v1_def fetchArtworks_start_v1_def
      settle_v1_success [OF awaited_v1_ok_response] page_of_def twelve_def
      click_load_more_v1_def load_more_clickable_v1_def handleLoadMore_v1_def Let_def)

lemma handleLoadMore_v1_call:
  "snd (handleLoadMore_v1 s)
     = (if hasMore s \<and> \<not> loading s then Some (searchTerm s, page s + 1, True) else None)"
  by (simp add: handleLoadMore_v1_def Let_def)

lemma click_load_more_v1_call:
  "snd (click_load_more_v1 s) = Some c \<Longrightarrow>
   hasMore s \<and> \<not> loading s \<and> c = (searchTerm s, page s + 1, True)"
  by (auto simp: click_load_more_v1_def load_more_clickable_v1_def handleLoadMore_v1_def Let_def
      split: if_splits)

lemma click_load_more_v2_call:
  "snd (click_load_more_v2 g) = Some c \<Longrightarrow>
   hasMore g \<and> \<not> loading g \<and> c = (page g + 1, searchTerm g)"
  by (auto simp: click_load_more_v2_def load_more_clickable_v2_def loadMore_v2_def Let_def
      split: if_splits)

lemma click_load_more_v3_call:
  "snd (click_load_more_v3 g) = Some c \<Longrightarrow>
   hasMore g \<and> \<not> loading g \<and> c = (page g + 1, searchTerm g)"
  by (auto simp: click_load_more_v3_def load_more_clickable_v3_def loadMore_v3_def Let_def
      split: if_splits)

text \<open>
  Claim C9, amended: a load-more issues a fetch only when \<open>hasMore\<close> is true and the
  \<open>loading\<close> flag is false, and the fetch is for \<open>page + 1\<close> and appends. In the first
  version the handler makes the test (and passes \<open>append = true\<close>). In the second and third
  versions the handler \<open>loadMore\<close> is unconditional; the test is made by the render, which
  shows the button only under a non-empty list with \<open>hasMore\<close> and disables it while
  \<open>loading\<close>, and the fetch appends because its page number is not 1 (for \<open>page \<ge> 1\<close>).
\<close>

theorem load_more_guard:
  "snd (handleLoadMore_v1 s)
     = (if hasMore s \<and> \<not> loading s then Some (searchTerm s, page s + 1, True) else None)
   \<and> (snd (click_load_more_v1 s) = Some c1 \<longrightarrow>
        hasMore s \<and> \<not> loading s \<and> c1 = (searchTerm s, page s + 1, True))
   \<and> snd (loadMore_v2 g) = (page g + 1, searchTerm g)
   \<and> snd (loadMore_v3 g) = (page g + 1, searchTerm g)
   \<and> (snd (click_load_more_v2 g) = Some c2 \<longrightarrow>
        hasMore g \<and> \<not> loading g \<and> c2 = (page g + 1, searchTerm g))
   \<and> (snd (click_load_more_v3 g) = Some c3 \<longrightarrow>
        hasMore g \<and> \<not> loading g \<and> c3 = (page g + 1, searchTerm g))
   \<and> (1 \<le> page g \<longrightarrow>
        artworks (fetchArtworks_settle_v2 (page g + 1) (Inr d) g')
          = artworks g' @ filter has_image (data d)
        \<and> artworks (fetchArtworks_settle_v3 (page g + 1)
             (Inr \<lparr>ok = True, status = st, statusText = tx, json_body = Inr d\<rparr>) g')
          = artworks g' @ filter has_image (data d))"
proof (intro conjI impI)
  show "snd (handleLoadMore_v1 s)
     = (if hasMore s \<and> \<not> loading s then Some (searchTerm s, page s + 1, True) else None)"
    by (rule handleLoadMore_v1_call)
  show "snd (loadMore_v2 g) = (page g + 1, searchTerm g)"
    by (simp add: loadMore_v2_def Let_def)
  show "snd (loadMore_v3 g) = (page g + 1, searchTerm g)"
    by (simp add: loadMore_v3_def Let_def)
next
  assume a: "snd (click_load_more_v1 s) = Some c1"
  show "hasMore s" and "\<not> loading s" and "c1 = (searchTerm s, page s + 1, True)"
    using click_load_more_v1_call [OF a] by simp_all
next
  assume a: "snd (click_load_more_v2 g) = Some c2"
  show "hasMore g" and "\<not> loading g" and "c2 = (page g + 1, searchTerm g)"
    using click_load_more_v2_call [OF a] by simp_all
next
  assume a: "snd (click_load_more_v3 g) = Some c3"
  show "hasMore g" and "\<not> loading g" and "c3 = (page g + 1, searchTerm g)"
    using click_load_more_v3_call [OF a] by simp_all
next
  assume a: "1 \<le> page g"
  show "artworks (fetchArtworks_settle_v2 (page g + 1) (Inr d) g')
          = artworks g' @ filter has_image (data d)"
    using a by (simp add: settle_v2_success)
  show "artworks (fetchArtworks_settle_v3 (page g + 1)
             (Inr \<lparr>ok = True, status = st, statusText = tx, json_body = Inr d\<rparr>) g')
          = artworks g' @ filter has_image (data d)"
    using a by (simp add: settle_v3_success [OF awaited_v3_success])
qed

theorem load_more_guard_witness:
  "snd (click_load_more_v1 (initial_v1\<lparr>artworks := [sunrise]\<rparr>)) = Some ([], 2, True)
   \<and> hasMore (initial_v1\<lparr>artworks := [sunrise]\<rparr>)
   \<and> \<not> loading (initial_v1\<lparr>artworks := [sunrise]\<rparr>)
   \<and> snd (click_load_more_v2 (initial_v2\<lparr>artworks := [sunrise], loading := False\<rparr>))
       = Some (2, [])
   \<and> snd (click_load_more_v3 (initial_v2\<lparr>artworks := [sunrise], loading := False\<rparr>))
       = Some (2, [])
   \<and> hasMore (initial_v2\<lparr>artworks := [sunrise], loading := False\<rparr>)
   \<and> \<not> loading (initial_v2\<lparr>artworks := [sunrise], loading := False\<rparr>)
   \<and> 1 \<le> page (initial_v2\<lparr>artworks := [sunrise], loading := False\<rparr>)
   \<and> artworks (fetchArtworks_settle_v2 2 (Inr (page_of 2 3 (twelve 12)))
         (initial_v2\<lparr>artworks := [sunrise], page := 2\<rparr>)) = sunrise # twelve 12"
proof -
  let ?s = "initial_v1\<lparr>artworks := [sunrise]\<rparr>"
  let ?g = "initial_v2\<lparr>artworks := [sunrise], loading := False\<rparr>"
  have a: "snd (click_load_more_v1 ?s) = Some ([], 2, True)"
    by (simp add: click_load_more_v1_def load_more_clickable_v1_def handleLoadMore_v1_def
        initial_v1_def Let_def)
  have b: "snd (click_load_more_v2 ?g) = Some (2, [])"
    by (simp add: click_load_more_v2_def load_more_clickable_v2_def loadMore_v2_def
        initial_v2_def Let_def)
  have c: "snd (click_load_more_v3 ?g) = Some (2, [])"
    by (simp add: click_load_more_v3_def load_more_clickable_v3_def loadMore_v3_def
        initial_v2_def Let_def)
  have d: "1 \<le> page ?g"
    by (simp add: initial_v2_def)
  have e: "page ?g + 1 = 2"
    by (simp add: initial_v2_def)
  have f: "filter has_image (twelve 12) = twelve 12"
    by (rule filter_has_image_id) (rule has_image_twelve)
  show ?thesis
    using a b c d
      load_more_guard [of ?s "([], 2, True)" ?g "(2, [])" "(2, [])" "page_of 2 3 (twelve 12)"
        "initial_v2\<lparr>artworks := [sunrise], page := 2\<rparr>" 200 "''OK''"]
    by (simp add: e f data_page_of initial_v1_def initial_v2_def)
qed

lemma handleLoadMore_v1_state:
  "hasMore s \<Longrightarrow> \<not> loading s \<Longrightarrow>
   fst (handleLoadMore_v1 s) = s\<lparr>page := page s + 1, loading := True, error := []\<rparr>"
  by (simp add: handleLoadMore_v1_def fetchArtworks_start_v1_def Let_def)

lemma loadMore_v2_state: "fst (loadMore_v2 g) = g\<lparr>page := page g + 1, loading := True\<rparr>"
  by (simp add: loadMore_v2_def fetchArtworks_start_v2_def Let_def)

text \<open>
  Claim C10: a load-more sets the page to \<open>page + 1\<close> before its request settles. When the
  request fails, the page stays at \<open>page + 1\<close> and the result list is what it was, so the
  next load-more asks for \<open>page + 2\<close>: the failed page is skipped. This holds for the
  handler of the first version (called with \<open>hasMore\<close> and not \<open>loading\<close>) and for the
  handler of the second.
\<close>

theorem failed_load_more_skips_page:
  assumes "hasMore s" and "\<not> loading s" and "fetch_fails r"
  shows "(let s1 = fst (handleLoadMore_v1 s);
              s2 = fetchArtworks_settle_v1 True r s1
          in snd (handleLoadMore_v1 s) = Some (searchTerm s, page s + 1, True)
             \<and> page s1 = page s + 1
             \<and> page s2 = page s + 1
             \<and> artworks s2 = artworks s
             \<and> snd (handleLoadMore_v1 s2) = Some (searchTerm s, page s + 2, True))
       \<and> (let g1 = fst (loadMore_v2 g);
               g2 = fetchArtworks_settle_v2 (page g + 1) (Inl err) g1
           in snd (loadMore_v2 g) = (page g + 1, searchTerm g)
              \<and> page g1 = page g + 1
              \<and> page g2 = page g + 1
              \<and> artworks g2 = artworks g
              \<and> snd (loadMore_v2 g2) = (page g + 2, searchTerm g))"
proof -
  obtain e where e: "awaited_v1 r = Inl e"
    using assms(3) fails_v1_obtain by blast
  have v1: "(let s1 = fst (handleLoadMore_v1 s);
              s2 = fetchArtworks_settle_v1 True r s1
          in snd (handleLoadMore_v1 s) = Some (searchTerm s, page s + 1, True)
             \<and> page s1 = page s + 1
             \<and> page s2 = page s + 1
             \<and> artworks s2 = artworks s
             \<and> snd (handleLoadMore_v1 s2) = Some (searchTerm s, page s + 2, True))"
    using assms(1,2)
    by (simp add: Let_def handleLoadMore_v1_state handleLoadMore_v1_call settle_v1_caught [OF e])
  have v2: "(let g1 = fst (loadMore_v2 g);
               g2 = fetchArtworks_settle_v2 (page g + 1) (Inl err) g1
           in snd (loadMore_v2 g) = (page g + 1, searchTerm g)
              \<and> page g1 = page g + 1
              \<and> page g2 = page g + 1
              \<and> artworks g2 = artworks g
              \<and> snd (loadMore_v2 g2) = (page g + 2, searchTerm g))"
    by (simp add: Let_def loadMore_v2_state settle_v2_caught) (simp add: loadMore_v2_def Let_def)
  from v1 v2 show ?thesis ..
qed


theorem failed_load_more_skips_page_witness:
  "hasMore (initial_v1\<lparr>artworks := twelve 0\<rparr>)
   \<and> \<not> loading (initial_v1\<lparr>artworks := twelve 0\<rparr>)
   \<and> fetch_fails server_error
   \<and> snd (handleLoadMore_v1 (initial_v1\<lparr>artworks := twelve 0\<rparr>)) = Some ([], 2, True)
   \<and> page (fetchArtworks_settle_v1 True server_error
        (fst (handleLoadMore_v1 (initial_v1\<lparr>artworks := twelve 0\<rparr>)))) = 2
   \<and> artworks (fetchArtworks_settle_v1 True server_error
        (fst (handleLoadMore_v1 (initial_v1\<lparr>artworks := twelve 0\<rparr>)))) = twelve 0
   \<and> snd (handleLoadMore_v1 (fetchArtworks_settle_v1 True server_error
        (fst (handleLoadMore_v1 (initial_v1\<lparr>artworks := twelve 0\<rparr>))))) = Some ([], 3, True)"
proof -
  let ?s = "initial_v1\<lparr>artworks := twelve 0\<rparr>"
  have h: "hasMore ?s" and l: "\<not> loading ?s" and p: "page ?s = 1" and q: "searchTerm ?s = []"
    by (simp_all add: initial_v1_def)
  have f: "fetch_fails server_error"
    by (simp add: fetch_fails_def server_error_def)
  show ?thesis
    using h l f failed_load_more_skips_page [OF h l f, of initial_v2 Other_value]
    by (simp add: Let_def p q)
qed

end
